theory Spec2Isabelle
  imports Main
begin

section \<open>The automation host as the scripts see it\<close>

text \<open>
  Both scripts are clients of an office process reached through the UNO bridge. Every
  statement of their \<^verbatim>\<open>try\<close> block is a call into that host or into the
  \<^verbatim>\<open>os\<close>/\<^verbatim>\<open>uno\<close> libraries. A call either raises a Python
  \<^verbatim>\<open>Exception\<close> (of which the scripts use only \<^verbatim>\<open>str(e)\<close>) or returns.
  The model keeps the calls in the order the source makes them, with their arguments.
  \<^verbatim>\<open>except Exception\<close> does not catch \<^verbatim>\<open>KeyboardInterrupt\<close> or
  \<^verbatim>\<open>SystemExit\<close>; neither is modelled. Of the import statements at the top of the
  two modules, \<^verbatim>\<open>import sys\<close> and \<^verbatim>\<open>import os\<close> are taken to succeed; the
  import of \<^verbatim>\<open>com.sun.star.beans.PropertyValue\<close> at the top of
  \<^verbatim>\<open>exportSlides.py\<close> is a call like the others.
  \<^verbatim>\<open>Store\<close> and \<^verbatim>\<open>StoreToURL\<close> are requests the host accepts and the scripts
  never make; they are in the alphabet so that their absence can be stated.
\<close>

type_synonym exn = string

text \<open>The object a method is called on, where the scripts can hold \<^verbatim>\<open>None\<close>.\<close>

datatype receiver = PyNone | TheDocument | TheSupplier

datatype component_context = LocalContext | RemoteContext

datatype call =
    Import string
  | GetComponentContext
  | ServiceManager component_context
  | CreateInstanceWithContext string component_context
  | Resolve string
  | Abspath string
  | SystemPathToFileUrl string
  | NewPropertyValue
  | LoadComponentFromURL string string int "(string \<times> bool) list"
  | GetCurrentController receiver
  | GetSlideShowController
  | GetPresentationSupplier receiver
  | GetPresentation receiver
  | GetSlides
  | GetCount
  | GetByIndex nat
  | SlideExport nat string string
  | Close receiver bool
  | Store receiver
  | StoreToURL receiver string

text \<open>
  A host fixes which calls raise and what the value-returning calls return:
  the two path conversions, whether \<^verbatim>\<open>loadComponentFromURL\<close> hands back a document
  (\<open>True\<close>) or \<^verbatim>\<open>None\<close>, whether the slide-show controller is truthy, and the
  slide count (a natural number; \<^verbatim>\<open>range\<close> runs the loop that many times).
  Whether a call raises may depend on the calls the process has made before it, so
  \<open>raises\<close> takes that history first: an import of \<^verbatim>\<open>com.sun.star\<close> can fail
  until \<^verbatim>\<open>uno\<close> has been imported, and a call that has returned once can raise when
  it is repeated.
\<close>

record host =
  raises :: "call list \<Rightarrow> call \<Rightarrow> exn option"
  abspath :: "string \<Rightarrow> string"
  systemPathToFileUrl :: "string \<Rightarrow> string"
  loadComponentFromURL :: "string \<Rightarrow> string \<Rightarrow> int \<Rightarrow> (string \<times> bool) list \<Rightarrow> bool"
  getSlideShowController :: bool
  getCount :: nat

text \<open>
  What a run changes: the calls issued so far, the files the host has written (URL to
  slide index and format), and the text written to \<^verbatim>\<open>sys.stderr\<close>.
\<close>

record world =
  calls :: "call list"
  files :: "string \<rightharpoonup> nat \<times> string"
  stderr :: string

definition start :: world where
  "start = \<lparr>calls = [], files = Map.empty, stderr = []\<rparr>"

definition newline :: char where
  "newline = CHR 0x0A"

text \<open>\<^verbatim>\<open>print(s, file=sys.stderr)\<close> writes the text and a line break.\<close>

definition print_stderr :: "string \<Rightarrow> world \<Rightarrow> world" where
  "print_stderr s w = w\<lparr>stderr := stderr w @ s @ [newline]\<rparr>"

text \<open>
  What the interpreter writes for an exception nothing catches, before it exits with
  status 1. Its stack frames and the name of the exception's type are left out.
\<close>

definition traceback :: "exn \<Rightarrow> string" where
  "traceback e = ''Traceback (most recent call last):'' @ [newline] @ e @ [newline]"

definition line_breaks :: "string \<Rightarrow> nat" where
  "line_breaks s = length (filter (\<lambda>c. c = newline) s)"

definition loaded :: "bool \<Rightarrow> receiver" where
  "loaded b = (if b then TheDocument else PyNone)"

definition quote :: "string \<Rightarrow> string" where
  "quote s = [CHR 0x27] @ s @ [CHR 0x27]"

definition attribute_error :: "string \<Rightarrow> exn" where
  "attribute_error name =
     quote ''NoneType'' @ '' object has no attribute '' @ quote name"

text \<open>A method called on \<^verbatim>\<open>None\<close> raises AttributeError before the host is asked.\<close>

fun throws :: "host \<Rightarrow> call list \<Rightarrow> call \<Rightarrow> exn option" where
  "throws h tr (GetCurrentController PyNone) = Some (attribute_error ''getCurrentController'')"
| "throws h tr (GetPresentationSupplier PyNone) = Some (attribute_error ''getPresentationSupplier'')"
| "throws h tr (GetPresentation PyNone) = Some (attribute_error ''getPresentation'')"
| "throws h tr (Close PyNone b) = Some (attribute_error ''close'')"
| "throws h tr (Store PyNone) = Some (attribute_error ''store'')"
| "throws h tr (StoreToURL PyNone u) = Some (attribute_error ''storeToURL'')"
| "throws h tr c = raises h tr c"

text \<open>Only a slide export that returns writes a file.\<close>

fun written :: "call \<Rightarrow> (string \<rightharpoonup> nat \<times> string) \<Rightarrow> (string \<rightharpoonup> nat \<times> string)" where
  "written (SlideExport i url fmt) fs = fs(url \<mapsto> (i, fmt))"
| "written c fs = fs"

definition issue :: "call \<Rightarrow> world \<Rightarrow> world" where
  "issue c w = w\<lparr>calls := calls w @ [c]\<rparr>"

definition effect :: "call \<Rightarrow> world \<Rightarrow> world" where
  "effect c w = w\<lparr>files := written c (files w)\<rparr>"

text \<open>
  Statements run in order; the first call that raises ends the \<^verbatim>\<open>try\<close> body. The
  history a call is answered on is the trace of the world it is made in.
\<close>

fun run :: "host \<Rightarrow> call list \<Rightarrow> world \<Rightarrow> exn option \<times> world" where
  "run h [] w = (None, w)"
| "run h (c # cs) w =
     (case throws h (calls w) c of
        Some e \<Rightarrow> (Some e, issue c w)
      | None \<Rightarrow> run h cs (effect c (issue c w)))"

section \<open>Output file names\<close>

definition digit :: "nat \<Rightarrow> char" where
  "digit d = ''0123456789'' ! d"

fun dec :: "nat \<Rightarrow> string" where
  "dec n = (if n < 10 then [digit n] else dec (n div 10) @ [digit (n mod 10)])"

declare dec.simps [simp del]

text \<open>The format spec \<^verbatim>\<open>03d\<close>: decimal, padded with zeros on the left to width 3.\<close>

definition format_03d :: "nat \<Rightarrow> string" where
  "format_03d n = replicate (3 - length (dec n)) CHR ''0'' @ dec n"

definition slide_filename :: "nat \<Rightarrow> string" where
  "slide_filename i = ''slide_'' @ format_03d (i + 1) @ ''.png''"

text \<open>\<^verbatim>\<open>os.path.join\<close> of two components (POSIX).\<close>

definition path_join :: "string \<Rightarrow> string \<Rightarrow> string" where
  "path_join a b =
     (if b \<noteq> [] \<and> hd b = CHR ''/'' then b
      else if a = [] \<or> last a = CHR ''/'' then a @ b
      else a @ ''/'' @ b)"

definition output_url :: "host \<Rightarrow> string \<Rightarrow> nat \<Rightarrow> string" where
  "output_url h output_dir i =
     systemPathToFileUrl h (abspath h (path_join output_dir (slide_filename i)))"

section \<open>exportSlides.py\<close>

definition connect :: "call list" where
  "connect =
    [GetComponentContext,
     ServiceManager LocalContext,
     CreateInstanceWithContext ''com.sun.star.bridge.UnoUrlResolver'' LocalContext,
     Resolve ''uno:socket,host=localhost,port=2002;urp;StarOffice.ComponentContext'',
     ServiceManager RemoteContext,
     CreateInstanceWithContext ''com.sun.star.frame.Desktop'' RemoteContext]"

definition hidden_props :: "(string \<times> bool) list" where
  "hidden_props = [(''Hidden'', True)]"

text \<open>One pass of the \<^verbatim>\<open>for\<close> loop of \<^verbatim>\<open>export_slides_to_png\<close>.\<close>

definition export_slide :: "host \<Rightarrow> string \<Rightarrow> nat \<Rightarrow> call list" where
  "export_slide h output_dir i =
    [GetByIndex i,
     Abspath (path_join output_dir (slide_filename i)),
     SystemPathToFileUrl (abspath h (path_join output_dir (slide_filename i))),
     SlideExport i (output_url h output_dir i) ''png'']"

text \<open>The statements of the \<^verbatim>\<open>try\<close> body up to the load request.\<close>

definition prepare_load :: "host \<Rightarrow> string \<Rightarrow> call list" where
  "prepare_load h input_file =
     [Import ''uno'',
      Import ''com.sun.star.connection.NoConnectException'',
      Import ''com.sun.star.beans.PropertyValue'']
     @ connect @
     [Abspath input_file,
      SystemPathToFileUrl (abspath h input_file),
      NewPropertyValue]"

text \<open>The statements of the \<^verbatim>\<open>try\<close> body up to the loop.\<close>

definition open_presentation :: "host \<Rightarrow> string \<Rightarrow> call list" where
  "open_presentation h input_file =
    (let url = systemPathToFileUrl h (abspath h input_file);
         document = loaded (loadComponentFromURL h url ''_blank'' 0 hidden_props)
     in prepare_load h input_file @
        [LoadComponentFromURL url ''_blank'' 0 hidden_props,
         GetPresentation document,
         GetSlides,
         GetCount])"

definition export_slides_to_png_body :: "host \<Rightarrow> string \<Rightarrow> string \<Rightarrow> call list" where
  "export_slides_to_png_body h input_file output_dir =
    (let url = systemPathToFileUrl h (abspath h input_file);
         document = loaded (loadComponentFromURL h url ''_blank'' 0 hidden_props)
     in open_presentation h input_file
        @ concat (map (export_slide h output_dir) [0..<getCount h])
        @ [Close document True])"

definition export_slides_to_png :: "host \<Rightarrow> string \<Rightarrow> string \<Rightarrow> world \<Rightarrow> bool \<times> world" where
  "export_slides_to_png h input_file output_dir w =
    (case run h (export_slides_to_png_body h input_file output_dir) w of
       (None, w') \<Rightarrow> (True, w')
     | (Some e, w') \<Rightarrow> (False, print_stderr (''Error: '' @ e) w'))"

text \<open>
  The module: line 8 imports \<^verbatim>\<open>PropertyValue\<close> before anything else of UNO and outside
  any \<^verbatim>\<open>try\<close>; an exception there ends the process with a traceback and status 1.
  Then comes the \<^verbatim>\<open>__main__\<close> block.
\<close>

definition main_exportSlides :: "host \<Rightarrow> string list \<Rightarrow> world \<Rightarrow> int \<times> world" where
  "main_exportSlides h argv w =
    (case run h [Import ''com.sun.star.beans.PropertyValue''] w of
       (Some e, w0) \<Rightarrow> (1, w0\<lparr>stderr := stderr w0 @ traceback e\<rparr>)
     | (None, w0) \<Rightarrow>
         if length argv \<noteq> 3
         then (1, print_stderr ''Usage: python exportSlides.py <input_pptx> <output_dir>'' w0)
         else (case export_slides_to_png h (argv ! 1) (argv ! 2) w0 of
                 (True, w') \<Rightarrow> (0, w')
               | (False, w') \<Rightarrow> (1, w')))"

section \<open>exportSlidesMacro.py\<close>

text \<open>One pass of the \<^verbatim>\<open>for\<close> loop of \<^verbatim>\<open>export_slides\<close>.\<close>

definition export_slide_macro :: "host \<Rightarrow> string \<Rightarrow> nat \<Rightarrow> call list" where
  "export_slide_macro h output_dir i =
    [GetSlides,
     GetByIndex i,
     Abspath (path_join output_dir (slide_filename i)),
     SystemPathToFileUrl (abspath h (path_join output_dir (slide_filename i))),
     SlideExport i (output_url h output_dir i) ''png'']"

text \<open>The statements of the \<^verbatim>\<open>try\<close> body up to the load request.\<close>

definition convert_paths :: "host \<Rightarrow> string \<Rightarrow> string \<Rightarrow> call list" where
  "convert_paths h input_file output_dir =
     [Import ''uno'',
      Import ''com.sun.star.beans.PropertyValue'']
     @ connect @
     [Abspath input_file,
      SystemPathToFileUrl (abspath h input_file),
      Abspath output_dir,
      SystemPathToFileUrl (abspath h output_dir)]"

text \<open>The statements of the \<^verbatim>\<open>try\<close> body up to the test \<^verbatim>\<open>if not slides\<close>.\<close>

definition open_document :: "host \<Rightarrow> string \<Rightarrow> string \<Rightarrow> call list" where
  "open_document h input_file output_dir =
    (let input_url = systemPathToFileUrl h (abspath h input_file);
         doc = loaded (loadComponentFromURL h input_url ''_blank'' 0 [])
     in convert_paths h input_file output_dir @
        [LoadComponentFromURL input_url ''_blank'' 0 [],
         GetCurrentController doc,
         GetSlideShowController])"

text \<open>The branch taken when the slide-show controller is falsy.\<close>

definition from_supplier :: "host \<Rightarrow> string \<Rightarrow> string \<Rightarrow> call list" where
  "from_supplier h input_file output_dir =
    (let input_url = systemPathToFileUrl h (abspath h input_file);
         doc = loaded (loadComponentFromURL h input_url ''_blank'' 0 [])
     in [GetPresentationSupplier doc,
         GetPresentation TheSupplier,
         GetSlides,
         GetCount]
        @ concat (map (export_slide_macro h output_dir) [0..<getCount h]))"

definition export_slides_body :: "host \<Rightarrow> string \<Rightarrow> string \<Rightarrow> call list" where
  "export_slides_body h input_file output_dir =
    (let input_url = systemPathToFileUrl h (abspath h input_file);
         doc = loaded (loadComponentFromURL h input_url ''_blank'' 0 [])
     in open_document h input_file output_dir
        @ (if \<not> getSlideShowController h then from_supplier h input_file output_dir else [])
        @ [Close doc True])"

definition export_slides :: "host \<Rightarrow> string \<Rightarrow> string \<Rightarrow> world \<Rightarrow> bool \<times> world" where
  "export_slides h input_file output_dir w =
    (case run h (export_slides_body h input_file output_dir) w of
       (None, w') \<Rightarrow> (True, w')
     | (Some e, w') \<Rightarrow> (False, print_stderr (''Error: '' @ e) w'))"

text \<open>The module imports nothing of UNO at its top; the \<^verbatim>\<open>__main__\<close> block is all.\<close>

definition main_exportSlidesMacro :: "host \<Rightarrow> string list \<Rightarrow> world \<Rightarrow> int \<times> world" where
  "main_exportSlidesMacro h argv w =
    (if length argv \<noteq> 3
     then (1, print_stderr ''Usage: python exportSlidesMacro.py <input_pptx> <output_dir>'' w)
     else (case export_slides h (argv ! 1) (argv ! 2) w of
             (True, w') \<Rightarrow> (0, w')
           | (False, w') \<Rightarrow> (1, w')))"

section \<open>Both scripts, side by side\<close>

datatype script = ExportSlides | ExportSlidesMacro

definition body_of :: "script \<Rightarrow> host \<Rightarrow> string \<Rightarrow> string \<Rightarrow> call list" where
  "body_of s = (case s of ExportSlides \<Rightarrow> export_slides_to_png_body
                        | ExportSlidesMacro \<Rightarrow> export_slides_body)"

definition export_of :: "script \<Rightarrow> host \<Rightarrow> string \<Rightarrow> string \<Rightarrow> world \<Rightarrow> bool \<times> world" where
  "export_of s = (case s of ExportSlides \<Rightarrow> export_slides_to_png
                          | ExportSlidesMacro \<Rightarrow> export_slides)"

definition main_of :: "script \<Rightarrow> host \<Rightarrow> string list \<Rightarrow> world \<Rightarrow> int \<times> world" where
  "main_of s = (case s of ExportSlides \<Rightarrow> main_exportSlides
                        | ExportSlidesMacro \<Rightarrow> main_exportSlidesMacro)"

definition usage_of :: "script \<Rightarrow> string" where
  "usage_of s = (case s of
       ExportSlides \<Rightarrow> ''Usage: python exportSlides.py <input_pptx> <output_dir>''
     | ExportSlidesMacro \<Rightarrow> ''Usage: python exportSlidesMacro.py <input_pptx> <output_dir>'')"

text \<open>The UNO imports a module makes at its top, before its \<^verbatim>\<open>__main__\<close> block.\<close>

definition module_imports :: "script \<Rightarrow> call list" where
  "module_imports s = (case s of
       ExportSlides \<Rightarrow> [Import ''com.sun.star.beans.PropertyValue'']
     | ExportSlidesMacro \<Rightarrow> [])"

text \<open>The property tuple each script passes to \<^verbatim>\<open>loadComponentFromURL\<close>.\<close>

definition load_props :: "script \<Rightarrow> (string \<times> bool) list" where
  "load_props s = (case s of ExportSlides \<Rightarrow> hidden_props | ExportSlidesMacro \<Rightarrow> [])"

definition load_request :: "script \<Rightarrow> host \<Rightarrow> string \<Rightarrow> call" where
  "load_request s h input_file =
     LoadComponentFromURL (systemPathToFileUrl h (abspath h input_file)) ''_blank'' 0 (load_props s)"

definition load_returns_document :: "script \<Rightarrow> host \<Rightarrow> string \<Rightarrow> bool" where
  "load_returns_document s h input_file =
     loadComponentFromURL h (systemPathToFileUrl h (abspath h input_file)) ''_blank'' 0 (load_props s)"

text \<open>The calls each script makes before its load request, before its loop, and in one
  pass of the loop.\<close>

definition before_load :: "script \<Rightarrow> host \<Rightarrow> string \<Rightarrow> string \<Rightarrow> call list" where
  "before_load s h input_file output_dir = (case s of
       ExportSlides \<Rightarrow> prepare_load h input_file
     | ExportSlidesMacro \<Rightarrow> convert_paths h input_file output_dir)"

definition before_loop :: "script \<Rightarrow> host \<Rightarrow> string \<Rightarrow> string \<Rightarrow> call list" where
  "before_loop s h input_file output_dir = (case s of
       ExportSlides \<Rightarrow> open_presentation h input_file
     | ExportSlidesMacro \<Rightarrow>
         open_document h input_file output_dir
         @ [GetPresentationSupplier
              (loaded (loadComponentFromURL h (systemPathToFileUrl h (abspath h input_file))
                 ''_blank'' 0 [])),
            GetPresentation TheSupplier, GetSlides, GetCount])"

definition pass :: "script \<Rightarrow> host \<Rightarrow> string \<Rightarrow> nat \<Rightarrow> call list" where
  "pass s = (case s of ExportSlides \<Rightarrow> export_slide | ExportSlidesMacro \<Rightarrow> export_slide_macro)"

text \<open>The calls a run has added to the trace it started from, and the text it has added
  to the error stream.\<close>

definition issued :: "world \<Rightarrow> world \<Rightarrow> call list" where
  "issued w w' = drop (length (calls w)) (calls w')"

definition printed :: "world \<Rightarrow> world \<Rightarrow> string" where
  "printed w w' = drop (length (stderr w)) (stderr w')"

text \<open>Every call of a list returns when the list is run after the history \<open>tr\<close>.\<close>

fun all_return :: "host \<Rightarrow> call list \<Rightarrow> call list \<Rightarrow> bool" where
  "all_return h tr [] = True"
| "all_return h tr (c # cs) = (throws h tr c = None \<and> all_return h (tr @ [c]) cs)"

fun is_export :: "call \<Rightarrow> bool" where
  "is_export (SlideExport i url fmt) = True"
| "is_export c = False"

fun is_close :: "call \<Rightarrow> bool" where
  "is_close (Close r b) = True"
| "is_close c = False"

fun is_store :: "call \<Rightarrow> bool" where
  "is_store (Store r) = True"
| "is_store (StoreToURL r u) = True"
| "is_store c = False"

text \<open>The world once every call of a list has returned.\<close>

fun performed :: "call list \<Rightarrow> world \<Rightarrow> world" where
  "performed [] w = w"
| "performed (c # cs) w = performed cs (effect c (issue c w))"

text \<open>The files once the first \<open>k\<close> slides have been exported, in order.\<close>

fun exported :: "host \<Rightarrow> string \<Rightarrow> nat \<Rightarrow> (string \<rightharpoonup> nat \<times> string) \<Rightarrow> (string \<rightharpoonup> nat \<times> string)" where
  "exported h output_dir 0 fs = fs"
| "exported h output_dir (Suc k) fs =
     (exported h output_dir k fs)(output_url h output_dir k \<mapsto> (k, ''png''))"

text \<open>Whether a call list runs to its end, and the files it leaves, on a host whose
  answers do not depend on the history.\<close>

fun outcome :: "host \<Rightarrow> call list \<Rightarrow> (string \<rightharpoonup> nat \<times> string) \<Rightarrow> bool \<times> (string \<rightharpoonup> nat \<times> string)" where
  "outcome h [] fs = (True, fs)"
| "outcome h (c # cs) fs =
     (case throws h [] c of Some e \<Rightarrow> (False, fs) | None \<Rightarrow> outcome h cs (written c fs))"

section \<open>Hosts to run the scripts against\<close>

definition office :: "(call list \<Rightarrow> call \<Rightarrow> exn option) \<Rightarrow> bool \<Rightarrow> nat \<Rightarrow> host" where
  "office r controller n =
     \<lparr>raises = r,
      abspath = (\<lambda>p. ''/work/'' @ p),
      systemPathToFileUrl = (\<lambda>p. ''file://'' @ p),
      loadComponentFromURL = (\<lambda>url target flags props. True),
      getSlideShowController = controller,
      getCount = n\<rparr>"

definition never :: "call list \<Rightarrow> call \<Rightarrow> exn option" where
  "never tr c = None"

definition only :: "call \<Rightarrow> exn \<Rightarrow> call list \<Rightarrow> call \<Rightarrow> exn option" where
  "only c e tr c' = (if c' = c then Some e else None)"

definition resolve_url :: string where
  "resolve_url = ''uno:socket,host=localhost,port=2002;urp;StarOffice.ComponentContext''"

definition unreachable :: host where
  "unreachable = office (only (Resolve resolve_url) ''connection refused'') False 2"

definition missing_file :: host where
  "missing_file =
     office (only (LoadComponentFromURL ''file:///work/missing.pptx'' ''_blank'' 0 [(''Hidden'', True)])
               ''Unsupported URL'') False 2"

section \<open>What a trace says about the load request\<close>

fun is_load :: "call \<Rightarrow> bool" where
  "is_load (LoadComponentFromURL url target flags props) = True"
| "is_load c = False"

text \<open>A load request asks for read-only mode by carrying the property \<^verbatim>\<open>ReadOnly = True\<close>.\<close>

fun requests_read_only :: "call \<Rightarrow> bool" where
  "requests_read_only (LoadComponentFromURL url target flags props) = ((''ReadOnly'', True) \<in> set props)"
| "requests_read_only c = False"

definition opened_read_only :: "call list \<Rightarrow> bool" where
  "opened_read_only cs = list_all requests_read_only (filter is_load cs)"

section \<open>Where the two call sequences differ\<close>

text \<open>Calls which \<^verbatim>\<open>export_slides\<close> makes on its supplier path and
  \<^verbatim>\<open>export_slides_to_png\<close> does not, and the other way round.\<close>

definition only_in_export_slides :: "host \<Rightarrow> string \<Rightarrow> call list" where
  "only_in_export_slides h output_dir =
     [Abspath output_dir,
      SystemPathToFileUrl (abspath h output_dir),
      GetCurrentController TheDocument,
      GetSlideShowController,
      GetPresentationSupplier TheDocument]"

definition only_in_export_slides_to_png :: "call list" where
  "only_in_export_slides_to_png =
     [Import ''com.sun.star.connection.NoConnectException'', NewPropertyValue]"

section \<open>Reading a file name back\<close>

definition digit_value :: "char \<Rightarrow> nat" where
  "digit_value c = of_char c - 48"

definition read_dec :: "string \<Rightarrow> nat" where
  "read_dec s = foldl (\<lambda>a c. 10 * a + digit_value c) 0 s"

section \<open>More hosts\<close>

text \<open>One whose second export fails, one that vetoes the close, one with a slide-show
  controller, one whose controller lookup raises, one that refuses the connection with a
  message of two lines.\<close>

definition failing_export :: host where
  "failing_export =
     office (only (SlideExport 1 ''file:///work/out/slide_002.png'' ''png'') ''export failed'') False 3"

definition vetoing :: host where
  "vetoing = office (only (Close TheDocument True) ''close vetoed'') True 3"

definition presenting :: host where
  "presenting = office never True 3"

definition fussy :: host where
  "fussy = office (only GetSlideShowController ''getSlideShowController'') False 2"

definition refusing_twice :: host where
  "refusing_twice =
     office (only (Resolve resolve_url) (''connection refused'' @ [newline] @ ''is the office running?''))
       False 2"

text \<open>A host on which \<^verbatim>\<open>com.sun.star\<close> cannot be imported before \<^verbatim>\<open>uno\<close> is.\<close>

definition needs_uno_first :: "call list \<Rightarrow> call \<Rightarrow> exn option" where
  "needs_uno_first tr c =
     (if c = Import ''com.sun.star.beans.PropertyValue'' \<and> Import ''uno'' \<notin> set tr
      then Some (''No module named '' @ quote ''com'') else None)"

definition plain_python :: host where
  "plain_python = office needs_uno_first False 2"

text \<open>A host whose slide collection can be fetched once only.\<close>

definition slides_once :: "call list \<Rightarrow> call \<Rightarrow> exn option" where
  "slides_once tr c = (if c = GetSlides \<and> GetSlides \<in> set tr then Some ''disposed'' else None)"

definition forgetful :: host where
  "forgetful = office slides_once False 2"

section \<open>Running a list of calls\<close>

text \<open>The definitions that a run against a given host unfolds.\<close>

lemmas model_defs =
  main_of_def export_of_def body_of_def main_exportSlides_def main_exportSlidesMacro_def
  export_slides_to_png_def export_slides_def export_slides_to_png_body_def export_slides_body_def
  prepare_load_def convert_paths_def
  open_presentation_def open_document_def from_supplier_def connect_def export_slide_def
  export_slide_macro_def hidden_props_def output_url_def path_join_def slide_filename_def
  format_03d_def dec.simps digit_def loaded_def office_def never_def only_def start_def
  issued_def printed_def issue_def effect_def print_stderr_def traceback_def newline_def
  line_breaks_def module_imports_def
  load_request_def load_returns_document_def load_props_def
  before_load_def before_loop_def pass_def Let_def upt_conv_Cons eval_nat_numeral

subsection \<open>The world after a call\<close>

lemma calls_issue [simp]: "calls (issue c w) = calls w @ [c]"
  and files_issue [simp]: "files (issue c w) = files w"
  and stderr_issue [simp]: "stderr (issue c w) = stderr w"
  by (simp_all add: issue_def)

lemma calls_effect [simp]: "calls (effect c w) = calls w"
  and files_effect [simp]: "files (effect c w) = written c (files w)"
  and stderr_effect [simp]: "stderr (effect c w) = stderr w"
  by (simp_all add: effect_def)

lemma calls_print_stderr [simp]: "calls (print_stderr s w) = calls w"
  and files_print_stderr [simp]: "files (print_stderr s w) = files w"
  and stderr_print_stderr [simp]: "stderr (print_stderr s w) = stderr w @ s @ [newline]"
  by (simp_all add: print_stderr_def)

lemma calls_performed [simp]: "calls (performed cs w) = calls w @ cs"
  by (induction cs arbitrary: w) simp_all

lemma stderr_performed [simp]: "stderr (performed cs w) = stderr w"
  by (induction cs arbitrary: w) simp_all

lemma files_performed: "files (performed cs w) = fold written cs (files w)"
  by (induction cs arbitrary: w) simp_all

lemma performed_append [simp]: "performed (xs @ ys) w = performed ys (performed xs w)"
  by (induction xs arbitrary: w) simp_all

subsection \<open>A run stops at the first call that raises\<close>

lemma all_return_append:
  "all_return h tr (xs @ ys) \<longleftrightarrow> all_return h tr xs \<and> all_return h (tr @ xs) ys"
  by (induction xs arbitrary: tr) simp_all

lemma run_append:
  "run h (xs @ ys) w =
     (case run h xs w of (None, w') \<Rightarrow> run h ys w' | (Some e, w') \<Rightarrow> (Some e, w'))"
  by (induction xs arbitrary: w) (simp_all split: option.splits)

lemma run_returns:
  "all_return h (calls w) cs \<Longrightarrow> run h cs w = (None, performed cs w)"
  by (induction cs arbitrary: w) simp_all

lemma run_cases:
  "all_return h (calls w) cs \<and> run h cs w = (None, performed cs w)
   \<or> (\<exists>pre c post e. cs = pre @ c # post \<and> all_return h (calls w) pre
         \<and> throws h (calls w @ pre) c = Some e
         \<and> run h cs w = (Some e, issue c (performed pre w)))"
proof (induction cs arbitrary: w)
  case Nil
  show ?case by simp
next
  case (Cons a cs)
  show ?case
  proof (cases "throws h (calls w) a")
    case (Some e)
    then have "a # cs = [] @ a # cs \<and> all_return h (calls w) []
         \<and> throws h (calls w @ []) a = Some e
         \<and> run h (a # cs) w = (Some e, issue a (performed [] w))"
      by simp
    then show ?thesis by blast
  next
    case None
    from Cons.IH [of "effect a (issue a w)"] show ?thesis
    proof
      assume "all_return h (calls (effect a (issue a w))) cs
        \<and> run h cs (effect a (issue a w)) = (None, performed cs (effect a (issue a w)))"
      with None show ?thesis by simp
    next
      assume "\<exists>pre c post e. cs = pre @ c # post
         \<and> all_return h (calls (effect a (issue a w))) pre
         \<and> throws h (calls (effect a (issue a w)) @ pre) c = Some e
         \<and> run h cs (effect a (issue a w))
             = (Some e, issue c (performed pre (effect a (issue a w))))"
      then obtain pre c post e where *: "cs = pre @ c # post"
        "all_return h (calls (effect a (issue a w))) pre"
        "throws h (calls (effect a (issue a w)) @ pre) c = Some e"
        "run h cs (effect a (issue a w))
           = (Some e, issue c (performed pre (effect a (issue a w))))"
        by blast
      with None have "a # cs = (a # pre) @ c # post \<and> all_return h (calls w) (a # pre)
         \<and> throws h (calls w @ a # pre) c = Some e
         \<and> run h (a # cs) w = (Some e, issue c (performed (a # pre) w))"
        by simp
      then show ?thesis by blast
    qed
  qed
qed

subsection \<open>What a run has issued and printed\<close>

lemma issued_performed [simp]: "issued w (performed cs w) = cs"
  by (simp add: issued_def)

lemma issued_issue_performed [simp]: "issued w (issue c (performed cs w)) = cs @ [c]"
  by (simp add: issued_def)

lemma issued_stderr_update [simp]: "issued w (w'\<lparr>stderr := l\<rparr>) = issued w w'"
  by (simp add: issued_def)

lemma issued_print_stderr [simp]: "issued w (print_stderr s w') = issued w w'"
  by (simp add: issued_def)

lemma issued_effect [simp]: "issued w (effect c w') = issued w w'"
  by (simp add: issued_def)

lemma issued_self [simp]: "issued w w = []"
  by (simp add: issued_def)

lemma issued_append: "calls w' = calls w @ cs \<Longrightarrow> issued w w' = cs"
  by (simp add: issued_def)

lemma printed_append: "stderr w' = stderr w @ s \<Longrightarrow> printed w w' = s"
  by (simp add: printed_def)

lemma line_breaks_append [simp]: "line_breaks (xs @ ys) = line_breaks xs + line_breaks ys"
  by (simp add: line_breaks_def)

lemma line_breaks_newline [simp]: "line_breaks [newline] = 1"
  by (simp add: line_breaks_def)

lemma line_breaks_error_prefix [simp]: "line_breaks ''Error: '' = 0"
  by (simp add: line_breaks_def newline_def)

lemma run_stderr: "run h cs w = (r, w') \<Longrightarrow> stderr w' = stderr w"
  using run_cases [where h = h and cs = cs and w = w] by auto

lemma run_calls_prefix: "run h cs w = (r, w') \<Longrightarrow> calls w' = calls w @ issued w w'"
  using run_cases [where h = h and cs = cs and w = w] by (auto simp: issued_def)

lemma run_issued_prefix:
  assumes "run h cs w = (r, w')"
  shows "\<exists>rest. cs = issued w w' @ rest
           \<and> (r = None \<longrightarrow> rest = [] \<and> all_return h (calls w) cs)"
  using run_cases [where h = h and cs = cs and w = w] assms by auto

subsection \<open>The export functions and entry points as runs\<close>

lemma export_of_run:
  "export_of s h input_file output_dir w =
     (case run h (body_of s h input_file output_dir) w of
        (None, w') \<Rightarrow> (True, w')
      | (Some e, w') \<Rightarrow> (False, print_stderr (''Error: '' @ e) w'))"
  by (cases s) (simp_all add: export_of_def body_of_def export_slides_to_png_def export_slides_def)

lemma main_of_export:
  "main_of s h argv w =
     (case run h (module_imports s) w of
        (Some e, w0) \<Rightarrow> (1, w0\<lparr>stderr := stderr w0 @ traceback e\<rparr>)
      | (None, w0) \<Rightarrow>
          if length argv \<noteq> 3 then (1, print_stderr (usage_of s) w0)
          else (case export_of s h (argv ! 1) (argv ! 2) w0 of
                  (True, w') \<Rightarrow> (0, w') | (False, w') \<Rightarrow> (1, w')))"
proof (cases s)
  case ExportSlides
  show ?thesis
    unfolding ExportSlides main_of_def export_of_def usage_of_def module_imports_def
      main_exportSlides_def script.case
    by (rule refl)
next
  case ExportSlidesMacro
  show ?thesis
    unfolding ExportSlidesMacro main_of_def export_of_def usage_of_def module_imports_def
      main_exportSlidesMacro_def script.case
    by simp
qed

subsection \<open>Only exports write files\<close>

lemma fold_written_no_export:
  "\<forall>c\<in>set cs. \<not> is_export c \<Longrightarrow> fold written cs fs = fs"
proof (induction cs arbitrary: fs)
  case Nil
  show ?case by simp
next
  case (Cons c cs)
  then have "written c fs = fs" by (cases c) simp_all
  with Cons show ?case by simp
qed

lemma run_raises_in_prefix:
  assumes "\<not> all_return h (calls w) xs"
  shows "\<exists>pre c post e. xs = pre @ c # post \<and> all_return h (calls w) pre
           \<and> throws h (calls w @ pre) c = Some e
           \<and> run h (xs @ ys) w = (Some e, issue c (performed pre w))"
proof -
  from run_cases [where h = h and cs = xs and w = w] assms
  obtain pre c post e where *: "xs = pre @ c # post" "all_return h (calls w) pre"
    "throws h (calls w @ pre) c = Some e"
    and run: "run h xs w = (Some e, issue c (performed pre w))"
    by auto
  from run have "run h (xs @ ys) w = (Some e, issue c (performed pre w))"
    by (simp add: run_append)
  with * show ?thesis by blast
qed

lemma run_stops_within:
  assumes "\<not> all_return h (calls w) xs"
    and "\<forall>c\<in>set (butlast xs). \<not> is_export c"
    and "run h (xs @ ys) w = (r, w')"
  shows "(\<exists>pre c post. xs = pre @ c # post \<and> r = throws h (calls w @ pre) c)
       \<and> r \<noteq> None \<and> set (issued w w') \<subseteq> set xs
       \<and> files w' = files w \<and> stderr w' = stderr w
       \<and> calls w' = calls w @ issued w w'"
proof -
  from run_raises_in_prefix [OF assms(1), of ys] assms(3)
  obtain pre c post e where *: "xs = pre @ c # post" "throws h (calls w @ pre) c = Some e"
    "r = Some e" "w' = issue c (performed pre w)"
    by auto
  from *(1) have "set pre \<subseteq> set (butlast xs)"
    by (simp add: butlast_append)
  with assms(2) have "\<forall>x\<in>set pre. \<not> is_export x" by blast
  then have "fold written pre (files w) = files w" by (rule fold_written_no_export)
  moreover from * have "\<exists>pre c post. xs = pre @ c # post \<and> r = throws h (calls w @ pre) c"
    by metis
  ultimately show ?thesis using * by (auto simp: files_performed issued_def)
qed

subsection \<open>The shape of the two bodies\<close>

lemma loaded_cases: "loaded b = TheDocument \<and> b \<or> loaded b = PyNone \<and> \<not> b"
  by (simp add: loaded_def)

lemma body_of_load:
  "\<exists>ys. body_of s h i out =
     (before_load s h i out
      @ [load_request s h i,
         (case s of ExportSlides \<Rightarrow> GetPresentation | ExportSlidesMacro \<Rightarrow> GetCurrentController)
           (loaded (load_returns_document s h i))])
     @ ys"
  by (cases s)
    (simp_all add: body_of_def before_load_def export_slides_to_png_body_def export_slides_body_def
      open_presentation_def open_document_def load_request_def load_returns_document_def
      load_props_def Let_def)

lemma before_load_quiet:
  "\<forall>c\<in>set (before_load s h i out). \<not> is_export c \<and> (\<forall>j. c \<noteq> GetByIndex j)"
  by (cases s) (auto simp: before_load_def prepare_load_def convert_paths_def connect_def)

lemma module_imports_quiet:
  "\<forall>c\<in>set (module_imports s). \<not> is_export c \<and> (\<forall>j. c \<noteq> GetByIndex j)"
  by (cases s) (simp_all add: module_imports_def)

lemma load_failure_export:
  assumes "throws h (calls w0 @ before_load s h i out) (load_request s h i) \<noteq> None
           \<or> \<not> load_returns_document s h i"
    and "export_of s h i out w0 = (ok, w1)"
  shows "ok = False \<and> files w1 = files w0
       \<and> (\<forall>c\<in>set (issued w0 w1). \<not> is_export c \<and> (\<forall>j. c \<noteq> GetByIndex j))
       \<and> calls w1 = calls w0 @ issued w0 w1"
proof -
  define doc_call where "doc_call =
    (case s of ExportSlides \<Rightarrow> GetPresentation | ExportSlidesMacro \<Rightarrow> GetCurrentController)
      (loaded (load_returns_document s h i))"
  define head where "head = before_load s h i out @ [load_request s h i, doc_call]"
  from body_of_load [of s h i out] obtain ys where body: "body_of s h i out = head @ ys"
    by (auto simp: head_def doc_call_def)
  have quiet: "\<forall>c\<in>set head. \<not> is_export c \<and> (\<forall>j. c \<noteq> GetByIndex j)"
    using before_load_quiet [of s h i out]
    by (cases s) (auto simp: head_def doc_call_def load_request_def)
  have "\<not> load_returns_document s h i \<Longrightarrow> throws h tr doc_call \<noteq> None" for tr
    by (cases s) (simp_all add: doc_call_def loaded_def)
  with assms(1) have stops: "\<not> all_return h (calls w0) head"
    by (auto simp: head_def all_return_append)
  obtain r w2 where run: "run h (head @ ys) w0 = (r, w2)"
    by (cases "run h (head @ ys) w0")
  from quiet have "\<forall>c\<in>set (butlast head). \<not> is_export c"
    by (auto dest: in_set_butlastD)
  from run_stops_within [OF stops this run]
  have r: "r \<noteq> None" and sub: "set (issued w0 w2) \<subseteq> set head" and fs: "files w2 = files w0"
    and tr: "calls w2 = calls w0 @ issued w0 w2"
    by simp_all
  from r obtain e where e: "r = Some e" by auto
  from run e body assms(2) have "ok = False" and "w1 = print_stderr (''Error: '' @ e) w2"
    by (simp_all add: export_of_run)
  with sub fs tr quiet show ?thesis by auto
qed

lemma body_of_loop:
  assumes "s = ExportSlidesMacro \<longrightarrow> \<not> getSlideShowController h"
  shows "body_of s h i out =
           before_loop s h i out @ concat (map (pass s h out) [0..<getCount h])
           @ [Close (loaded (load_returns_document s h i)) True]"
  using assms
  by (cases s)
    (simp_all add: body_of_def before_loop_def pass_def export_slides_to_png_body_def
      export_slides_body_def from_supplier_def load_returns_document_def load_props_def Let_def)

lemma before_loop_quiet:
  "\<forall>c\<in>set (before_loop s h i out). \<not> is_export c \<and> \<not> is_close c \<and> \<not> is_store c"
  by (cases s)
    (auto simp: before_loop_def open_presentation_def open_document_def prepare_load_def
      convert_paths_def connect_def Let_def)

lemma pass_quiet:
  "\<forall>c\<in>set (pass s h out k). \<not> is_close c \<and> \<not> is_store c"
  "\<forall>c\<in>set (butlast (pass s h out k)). \<not> is_export c"
  by (cases s; simp add: pass_def export_slide_def export_slide_macro_def)+

lemma fold_written_pass:
  "fold written (pass s h out k) fs = fs(output_url h out k \<mapsto> (k, ''png''))"
  by (cases s) (simp_all add: pass_def export_slide_def export_slide_macro_def)

lemma fold_written_passes:
  "fold written (concat (map (pass s h out) [0..<k])) fs = exported h out k fs"
  by (induction k) (simp_all add: fold_written_pass)

lemma exported_dom: "j < k \<Longrightarrow> output_url h out j \<in> dom (exported h out k fs)"
  by (induction k) (auto simp: less_Suc_eq)

lemma upt_split:
  assumes "k < n"
  shows "[0..<n] = [0..<k] @ k # [Suc k..<n]"
proof -
  from assms obtain d where n: "n = k + d" and d: "0 < d"
    by (auto simp: less_iff_Suc_add)
  have "[0..<k + d] = [0..<k] @ [k..<k + d]"
    by (rule upt_add_eq_append) simp
  also from d have "[k..<k + d] = k # [Suc k..<k + d]"
    by (simp add: upt_conv_Cons)
  finally show ?thesis by (simp add: n)
qed

lemma export_of_issued:
  assumes "export_of s h i out w = (ok, w')"
  shows "\<exists>rest. body_of s h i out = issued w w' @ rest
           \<and> (ok \<longrightarrow> rest = [] \<and> all_return h (calls w) (body_of s h i out))"
proof -
  obtain r w1 where run: "run h (body_of s h i out) w = (r, w1)"
    by (cases "run h (body_of s h i out) w")
  with assms have "issued w w' = issued w w1" and "ok \<longrightarrow> r = None"
    by (auto simp: export_of_run split: option.splits)
  with run_issued_prefix [OF run] show ?thesis by auto
qed

lemma export_of_success:
  assumes "export_of s h i out w = (True, w')"
  shows "w' = performed (body_of s h i out) w \<and> all_return h (calls w) (body_of s h i out)"
proof -
  from assms have "run h (body_of s h i out) w = (None, w')"
    by (auto simp: export_of_run split: prod.splits option.splits)
  with run_cases [where h = h and cs = "body_of s h i out" and w = w] show ?thesis
    by auto
qed

lemma body_of_close:
  "\<exists>front. body_of s h i out = front @ [Close (loaded (load_returns_document s h i)) True]
      \<and> (\<forall>c\<in>set front. \<not> is_close c)"
proof (cases "s = ExportSlidesMacro \<and> getSlideShowController h")
  case True
  then have "body_of s h i out
      = open_document h i out @ [Close (loaded (load_returns_document s h i)) True]"
    by (simp add: body_of_def export_slides_body_def load_returns_document_def load_props_def Let_def)
  moreover have "\<forall>c\<in>set (open_document h i out). \<not> is_close c"
    by (auto simp: open_document_def convert_paths_def connect_def Let_def)
  ultimately show ?thesis by blast
next
  case False
  then have "body_of s h i out
      = (before_loop s h i out @ concat (map (pass s h out) [0..<getCount h]))
        @ [Close (loaded (load_returns_document s h i)) True]"
    by (simp add: body_of_loop)
  moreover have "\<forall>c\<in>set (before_loop s h i out @ concat (map (pass s h out) [0..<getCount h])).
      \<not> is_close c"
    using before_loop_quiet [of s h i out] pass_quiet(1) [of s h out] by auto
  ultimately show ?thesis by blast
qed

lemma nothing_after_last:
  "xs @ [x] = pre @ c # post \<Longrightarrow> c \<notin> set xs \<Longrightarrow> post = []"
  by (cases post rule: rev_cases) auto

lemma all_return_last: "all_return h tr (xs @ [c]) \<Longrightarrow> throws h (tr @ xs) c = None"
  by (simp add: all_return_append)

lemma close_returned_on_document:
  assumes "throws h tr (Close (loaded b) True) = None"
  shows "loaded b = TheDocument"
  using assms loaded_cases [of b] by auto

text \<open>In any run nothing is issued after a close call.\<close>

lemma nothing_issued_after_close:
  assumes "export_of s h input_file output_dir w = (ok, w')"
    and "issued w w' = pre @ c # post" and "is_close c"
  shows "post = []"
proof -
  from export_of_issued [OF assms(1)] obtain rest
    where body: "body_of s h input_file output_dir = issued w w' @ rest"
    by blast
  from body_of_close [of s h input_file output_dir] obtain front
    where front: "body_of s h input_file output_dir
        = front @ [Close (loaded (load_returns_document s h input_file)) True]"
      and no_close: "\<forall>c\<in>set front. \<not> is_close c"
    by blast
  from assms(2) body front
  have "front @ [Close (loaded (load_returns_document s h input_file)) True]
      = pre @ c # (post @ rest)"
    by simp
  moreover from assms(3) no_close have "c \<notin> set front" by blast
  ultimately have "post @ rest = []" by (rule nothing_after_last)
  then show ?thesis by simp
qed

text \<open>
  A successful run of \<^verbatim>\<open>export_slides_to_png\<close>, or of \<^verbatim>\<open>export_slides\<close> on its
  supplier path, has made every pass of the loop, one per slide, and then closed the
  document: the close call is the last one and the only one.
\<close>

lemma closed_after_every_pass:
  assumes "s = ExportSlidesMacro \<longrightarrow> \<not> getSlideShowController h"
    and "export_of s h input_file output_dir w = (True, w')"
  shows "issued w w' = before_loop s h input_file output_dir
           @ concat (map (pass s h output_dir) [0..<getCount h])
           @ [Close TheDocument True]"
proof -
  from export_of_success [OF assms(2)]
  have w': "w' = performed (body_of s h input_file output_dir) w"
    and returned: "all_return h (calls w) (body_of s h input_file output_dir)"
    by simp_all
  from returned
  have "throws h (calls w @ before_loop s h input_file output_dir
            @ concat (map (pass s h output_dir) [0..<getCount h]))
          (Close (loaded (load_returns_document s h input_file)) True) = None"
    by (simp add: body_of_loop [OF assms(1)] all_return_append)
  then have "loaded (load_returns_document s h input_file) = TheDocument"
    by (rule close_returned_on_document)
  then show ?thesis
    by (simp add: w' body_of_loop [OF assms(1)] del: performed_append)
qed

lemma body_of_calls:
  assumes "c \<in> set (body_of s h i out)"
  shows "\<not> is_store c \<and> (is_load c \<longrightarrow> c = load_request s h i)"
proof (cases "s = ExportSlidesMacro \<and> getSlideShowController h")
  case True
  with assms show ?thesis
    by (auto simp: body_of_def export_slides_body_def open_document_def convert_paths_def
        connect_def load_request_def load_props_def Let_def)
next
  case False
  have "\<not> is_store c \<and> (is_load c \<longrightarrow> c = load_request s h i)"
    if "c \<in> set (before_loop s h i out)"
    using that
    by (cases s)
      (auto simp: before_loop_def open_presentation_def open_document_def prepare_load_def
        convert_paths_def connect_def load_request_def load_props_def Let_def)
  moreover have "\<not> is_store c \<and> \<not> is_load c" if "c \<in> set (pass s h out k)" for k
    using that by (cases s) (auto simp: pass_def export_slide_def export_slide_macro_def)
  ultimately show ?thesis
    using assms False by (auto simp: body_of_loop)
qed

subsection \<open>The argument check\<close>

lemma usage_when_imports_return:
  assumes "length argv \<noteq> 3" and "all_return h (calls w) (module_imports s)"
  shows "main_of s h argv w = (1, print_stderr (usage_of s) (performed (module_imports s) w))"
  using assms by (simp add: main_of_export run_returns)

lemma macro_usage_on_wrong_argument_count:
  assumes "length argv \<noteq> 3"
  shows "main_exportSlidesMacro h argv w
    = (1, print_stderr ''Usage: python exportSlidesMacro.py <input_pptx> <output_dir>'' w)"
  using assms by (simp add: main_exportSlidesMacro_def)

subsection \<open>Comparing the two bodies call by call\<close>

lemma throws_history_free:
  assumes "\<forall>tr c. raises h tr c = raises h [] c"
  shows "throws h tr c = throws h [] c"
proof -
  from assms have "raises h tr c = raises h [] c" by blast
  then show ?thesis by (cases "(h, tr, c)" rule: throws.cases) simp_all
qed

lemma run_outcome:
  assumes "\<forall>tr c. raises h tr c = raises h [] c"
  shows "(fst (run h cs w) = None, files (snd (run h cs w))) = outcome h cs (files w)"
proof (induction cs arbitrary: w)
  case Nil
  show ?case by simp
next
  case (Cons c cs)
  from throws_history_free [OF assms] have "throws h (calls w) c = throws h [] c" .
  with Cons show ?case by (simp split: option.splits)
qed

lemma export_of_outcome:
  assumes "\<forall>tr c. raises h tr c = raises h [] c"
  shows "(fst (export_of s h i out w), files (snd (export_of s h i out w)))
     = outcome h (body_of s h i out) (files w)"
proof -
  obtain r w1 where run: "run h (body_of s h i out) w = (r, w1)"
    by (cases "run h (body_of s h i out) w")
  with run_outcome [OF assms, of "body_of s h i out" w]
  have "outcome h (body_of s h i out) (files w) = (r = None, files w1)"
    by simp
  with run show ?thesis
    by (cases r) (simp_all add: export_of_run)
qed

lemma outcome_passes:
  assumes "raises h [] GetSlides = None"
  shows "outcome h (concat (map (export_slide_macro h out) ks) @ rest) fs
       = outcome h (concat (map (export_slide h out) ks) @ rest) fs"
  using assms
  by (induction ks arbitrary: fs)
    (simp_all add: export_slide_def export_slide_macro_def split: option.splits)

lemma outcome_bodies:
  assumes "\<not> getSlideShowController h"
    and "\<forall>c\<in>set (only_in_export_slides h output_dir). raises h [] c = None"
    and "\<forall>c\<in>set only_in_export_slides_to_png. raises h [] c = None"
    and "raises h [] (load_request ExportSlidesMacro h input_file)
         = raises h [] (load_request ExportSlides h input_file)"
    and "load_returns_document ExportSlidesMacro h input_file
         = load_returns_document ExportSlides h input_file"
    and "raises h [] (GetPresentation TheSupplier) = raises h [] (GetPresentation TheDocument)"
  shows "outcome h (export_slides_body h input_file output_dir) fs
       = outcome h (export_slides_to_png_body h input_file output_dir) fs"
proof (cases "raises h [] GetSlides")
  case None
  with assms show ?thesis
    by (simp add: export_slides_body_def export_slides_to_png_body_def open_document_def
        open_presentation_def prepare_load_def convert_paths_def
        from_supplier_def connect_def only_in_export_slides_def
        only_in_export_slides_to_png_def load_request_def load_returns_document_def load_props_def
        loaded_def outcome_passes Let_def split: option.splits)
next
  case (Some e)
  with assms show ?thesis
    by (simp add: export_slides_body_def export_slides_to_png_body_def open_document_def
        open_presentation_def prepare_load_def convert_paths_def
        from_supplier_def connect_def only_in_export_slides_def
        only_in_export_slides_to_png_def load_request_def load_returns_document_def load_props_def
        loaded_def Let_def split: option.splits)
qed

subsection \<open>File names are distinct\<close>

text \<open>Reading the digits back gives the number, so no two slides share a file name.\<close>

lemma digit_value_digit: "d < 10 \<Longrightarrow> digit_value (digit d) = d"
  by (auto simp: digit_def digit_value_def eval_nat_numeral less_Suc_eq)

lemma read_dec_snoc: "read_dec (s @ [c]) = 10 * read_dec s + digit_value c"
  by (simp add: read_dec_def)

lemma read_dec_dec: "read_dec (dec n) = n"
proof (induction n rule: dec.induct)
  case (1 n)
  show ?case
  proof (cases "n < 10")
    case True
    then show ?thesis
      by (subst dec.simps) (simp add: read_dec_def digit_value_digit)
  next
    case False
    with 1 have "read_dec (dec (n div 10)) = n div 10" by simp
    with False show ?thesis
      by (subst dec.simps) (simp add: read_dec_snoc digit_value_digit)
  qed
qed

lemma read_dec_zeros: "read_dec (replicate k CHR ''0'' @ s) = read_dec s"
proof -
  have "foldl (\<lambda>a c. 10 * a + digit_value c) 0 (replicate k CHR ''0'') = 0"
    by (induction k) (simp_all add: digit_value_def)
  then show ?thesis by (simp add: read_dec_def)
qed

lemma read_dec_format_03d: "read_dec (format_03d n) = n"
  by (simp add: format_03d_def read_dec_zeros read_dec_dec)

lemma slide_filename_inj: "slide_filename i = slide_filename j \<Longrightarrow> i = j"
proof -
  assume "slide_filename i = slide_filename j"
  then have "format_03d (i + 1) = format_03d (j + 1)"
    by (simp add: slide_filename_def)
  then have "read_dec (format_03d (i + 1)) = read_dec (format_03d (j + 1))"
    by simp
  then show "i = j" by (simp add: read_dec_format_03d)
qed

lemma path_join_slide_filename:
  "path_join output_dir (slide_filename i)
     = (if output_dir = [] \<or> last output_dir = CHR ''/'' then output_dir else output_dir @ ''/'')
       @ slide_filename i"
  by (simp add: path_join_def slide_filename_def)

lemma output_file_inj:
  "path_join output_dir (slide_filename i) = path_join output_dir (slide_filename j) \<Longrightarrow> i = j"
  by (simp add: path_join_slide_filename slide_filename_inj)

lemma exported_other: "\<forall>j<n. u \<noteq> output_url h out j \<Longrightarrow> exported h out n fs u = fs u"
  by (induction n) (auto simp: less_Suc_eq)

lemma exported_lookup:
  assumes "inj_on (output_url h out) {..<n}" and "j < n"
  shows "exported h out n fs (output_url h out j) = Some (j, ''png'')"
  using assms
proof (induction n)
  case 0
  then show ?case by simp
next
  case (Suc n)
  show ?case
  proof (cases "j = n")
    case True
    then show ?thesis by simp
  next
    case False
    with Suc.prems have j: "j < n" by simp
    from Suc.prems(1) have inj: "inj_on (output_url h out) {..<n}"
      by (rule inj_on_subset) auto
    have "output_url h out n \<noteq> output_url h out j"
    proof
      assume "output_url h out n = output_url h out j"
      from inj_onD [OF Suc.prems(1) this] j show False by simp
    qed
    with Suc.IH [OF inj j] show ?thesis by simp
  qed
qed

text \<open>
  The host's path conversion need only keep apart the paths of the output files of one
  run, which differ in their file names alone.
\<close>

lemma output_url_inj_on:
  assumes "inj_on (\<lambda>p. systemPathToFileUrl h (abspath h p))
             ((\<lambda>k. path_join out (slide_filename k)) ` {..<n})"
  shows "inj_on (output_url h out) {..<n}"
proof (rule inj_onI)
  fix i j
  assume "i \<in> {..<n}" and "j \<in> {..<n}" and "output_url h out i = output_url h out j"
  with assms have "path_join out (slide_filename i) = path_join out (slide_filename j)"
    by (auto simp: output_url_def dest: inj_onD)
  then show "i = j" by (rule output_file_inj)
qed

subsection \<open>A completed loop exports every slide\<close>

text \<open>
  A successful run of \<^verbatim>\<open>export_slides_to_png\<close>, or of \<^verbatim>\<open>export_slides\<close> on its
  supplier path, issues one export per slide, in document order, each to its own numbered
  file; where the host's path conversion keeps the output paths apart these are as many
  files as slides.
\<close>

lemma filter_is_export_passes:
  "filter is_export (concat (map (pass s h out) ks))
     = map (\<lambda>k. SlideExport k (output_url h out k) ''png'') ks"
  by (induction ks; cases s) (simp_all add: pass_def export_slide_def export_slide_macro_def)

lemma filter_is_export_none: "\<forall>c\<in>set cs. \<not> is_export c \<Longrightarrow> filter is_export cs = []"
  by (induction cs) simp_all

lemma every_slide_exported:
  assumes "s = ExportSlidesMacro \<longrightarrow> \<not> getSlideShowController h"
    and "export_of s h input_file output_dir w = (True, w')"
  shows "filter is_export (issued w w')
           = map (\<lambda>k. SlideExport k (output_url h output_dir k) ''png'') [0..<getCount h]
       \<and> files w' = exported h output_dir (getCount h) (files w)"
proof -
  from closed_after_every_pass [OF assms]
  have trace: "issued w w' = before_loop s h input_file output_dir
           @ concat (map (pass s h output_dir) [0..<getCount h])
           @ [Close TheDocument True]" .
  from export_of_success [OF assms(2)]
  have "w' = performed (body_of s h input_file output_dir) w" by simp
  then have "w' = performed (issued w w') w" by simp
  then have files: "files w' = fold written (issued w w') (files w)"
    by (metis files_performed)
  have quiet: "\<forall>c\<in>set (before_loop s h input_file output_dir). \<not> is_export c"
    using before_loop_quiet [of s h input_file output_dir] by blast
  from quiet have "filter is_export (before_loop s h input_file output_dir) = []"
    by (rule filter_is_export_none)
  moreover from quiet have "fold written (before_loop s h input_file output_dir) fs = fs" for fs
    by (rule fold_written_no_export)
  ultimately show ?thesis
    unfolding files trace by (simp add: filter_is_export_passes fold_written_passes)
qed

lemma every_slide_in_its_file:
  assumes "s = ExportSlidesMacro \<longrightarrow> \<not> getSlideShowController h"
    and "export_of s h input_file output_dir w = (True, w')"
    and "inj_on (\<lambda>p. systemPathToFileUrl h (abspath h p))
           ((\<lambda>k. path_join output_dir (slide_filename k)) ` {..<getCount h})"
  shows "(\<forall>k<getCount h. files w' (output_url h output_dir k) = Some (k, ''png''))
       \<and> (\<forall>u. (\<forall>k<getCount h. u \<noteq> output_url h output_dir k) \<longrightarrow> files w' u = files w u)
       \<and> card (output_url h output_dir ` {..<getCount h}) = getCount h"
proof -
  from output_url_inj_on [OF assms(3)]
  have on: "inj_on (output_url h output_dir) {..<getCount h}" .
  from every_slide_exported [OF assms(1,2)]
  have files: "files w' = exported h output_dir (getCount h) (files w)" by simp
  from on have "card (output_url h output_dir ` {..<getCount h}) = getCount h"
    by (simp add: card_image)
  with files on show ?thesis
    by (auto simp: exported_lookup exported_other)
qed

section \<open>The claims\<close>

text \<open>
  C1, as amended. Take a host whose answer to a call does not depend on the calls made
  before it (so that a repeated \<^verbatim>\<open>getSlides\<close> is answered as the first), that reports
  no slide-show controller, on which the calls only one of the two functions makes return
  normally, and which answers alike the two load requests (with and without
  \<^verbatim>\<open>Hidden\<close>) and \<^verbatim>\<open>getPresentation\<close> on the document and on the supplier. On it
  \<^verbatim>\<open>export_slides\<close> and \<^verbatim>\<open>export_slides_to_png\<close> return the same boolean and leave
  the same files. Without these conditions they differ: on a host whose
  \<^verbatim>\<open>getSlideShowController\<close> raises, one succeeds and the other fails.
\<close>

theorem same_result_without_slide_show_controller:
  assumes "\<forall>tr c. raises h tr c = raises h [] c"
    and "\<not> getSlideShowController h"
    and "\<forall>c\<in>set (only_in_export_slides h output_dir). raises h [] c = None"
    and "\<forall>c\<in>set only_in_export_slides_to_png. raises h [] c = None"
    and "raises h [] (load_request ExportSlidesMacro h input_file)
         = raises h [] (load_request ExportSlides h input_file)"
    and "load_returns_document ExportSlidesMacro h input_file
         = load_returns_document ExportSlides h input_file"
    and "raises h [] (GetPresentation TheSupplier) = raises h [] (GetPresentation TheDocument)"
  shows "fst (export_slides h input_file output_dir w)
           = fst (export_slides_to_png h input_file output_dir w)
       \<and> files (snd (export_slides h input_file output_dir w))
           = files (snd (export_slides_to_png h input_file output_dir w))"
proof -
  have "(fst (export_slides h input_file output_dir w),
         files (snd (export_slides h input_file output_dir w)))
      = outcome h (export_slides_body h input_file output_dir) (files w)"
    using export_of_outcome [OF assms(1), of ExportSlidesMacro input_file output_dir w]
    by (simp add: export_of_def body_of_def)
  moreover have "(fst (export_slides_to_png h input_file output_dir w),
         files (snd (export_slides_to_png h input_file output_dir w)))
      = outcome h (export_slides_to_png_body h input_file output_dir) (files w)"
    using export_of_outcome [OF assms(1), of ExportSlides input_file output_dir w]
    by (simp add: export_of_def body_of_def)
  ultimately show ?thesis
    using outcome_bodies [OF assms(2-7), of "files w"] by (metis prod.inject)
qed

theorem same_result_without_slide_show_controller_witness:
  "fst (export_slides (office never False 2) ''deck.pptx'' ''out'' start) = True
   \<and> fst (export_slides_to_png (office never False 2) ''deck.pptx'' ''out'' start) = True
   \<and> files (snd (export_slides (office never False 2) ''deck.pptx'' ''out'' start))
       = files (snd (export_slides_to_png (office never False 2) ''deck.pptx'' ''out'' start))
   \<and> files (snd (export_slides (office never False 2) ''deck.pptx'' ''out'' start))
        ''file:///work/out/slide_002.png'' = Some (1, ''png'')"
  using same_result_without_slide_show_controller
    [of "office never False 2" "''out''" "''deck.pptx''" start]
  by (simp add: model_defs only_in_export_slides_def only_in_export_slides_to_png_def)

theorem scripts_disagree_when_controller_lookup_raises:
  "fst (export_slides_to_png fussy ''deck.pptx'' ''out'' start) = True
   \<and> fst (export_slides fussy ''deck.pptx'' ''out'' start) = False
   \<and> files (snd (export_slides_to_png fussy ''deck.pptx'' ''out'' start))
        ''file:///work/out/slide_001.png'' = Some (0, ''png'')
   \<and> files (snd (export_slides fussy ''deck.pptx'' ''out'' start))
        ''file:///work/out/slide_001.png'' = None"
  by (simp add: model_defs fussy_def)

text \<open>
  The first condition cannot be dropped: a host that hands out its slide collection once
  only meets the others, and there \<^verbatim>\<open>export_slides\<close>, which fetches the collection
  again in every pass, fails where \<^verbatim>\<open>export_slides_to_png\<close> succeeds.
\<close>

lemma scripts_disagree_when_slides_fetched_again:
  "\<not> getSlideShowController forgetful
   \<and> (\<forall>tr. \<forall>c\<in>set (only_in_export_slides forgetful ''out''). raises forgetful tr c = None)
   \<and> (\<forall>tr. \<forall>c\<in>set only_in_export_slides_to_png. raises forgetful tr c = None)
   \<and> fst (export_slides_to_png forgetful ''deck.pptx'' ''out'' start) = True
   \<and> fst (export_slides forgetful ''deck.pptx'' ''out'' start) = False"
  by (simp add: model_defs forgetful_def slides_once_def only_in_export_slides_def
      only_in_export_slides_to_png_def)

text \<open>
  C2. Run against a host on which every call returns, \<^verbatim>\<open>exportSlidesMacro.py\<close> issues its
  one load request for target \<^verbatim>\<open>_blank\<close> with flags 0 and an empty property tuple: the
  \<^verbatim>\<open>Hidden\<close> property, which \<^verbatim>\<open>exportSlides.py\<close> passes, is missing.
\<close>

theorem macro_load_request_not_hidden:
  "filter is_load (calls (snd (export_slides (office never False 2) ''deck.pptx'' ''out'' start)))
     = [LoadComponentFromURL ''file:///work/deck.pptx'' ''_blank'' 0 []]
   \<and> filter is_load (calls (snd (export_slides_to_png (office never False 2) ''deck.pptx'' ''out'' start)))
     = [LoadComponentFromURL ''file:///work/deck.pptx'' ''_blank'' 0 [(''Hidden'', True)]]"
  by (simp add: model_defs)

text \<open>
  C3. On a host with three slides whose slide-show controller is truthy,
  \<^verbatim>\<open>export_slides\<close> returns \<open>True\<close> having issued no export and written no file,
  where \<^verbatim>\<open>export_slides_to_png\<close> writes \<^verbatim>\<open>slide_001.png\<close> to
  \<^verbatim>\<open>slide_003.png\<close> from the slides at index 0 to 2.
\<close>

theorem macro_reports_success_without_exporting:
  "getCount presenting = 3
   \<and> fst (export_slides presenting ''deck.pptx'' ''out'' start) = True
   \<and> filter is_export (calls (snd (export_slides presenting ''deck.pptx'' ''out'' start))) = []
   \<and> files (snd (export_slides presenting ''deck.pptx'' ''out'' start)) = Map.empty
   \<and> fst (export_slides_to_png presenting ''deck.pptx'' ''out'' start) = True
   \<and> map (files (snd (export_slides_to_png presenting ''deck.pptx'' ''out'' start)))
        [''file:///work/out/slide_001.png'', ''file:///work/out/slide_002.png'',
         ''file:///work/out/slide_003.png'']
       = [Some (0, ''png''), Some (1, ''png''), Some (2, ''png'')]"
  by (simp add: model_defs presenting_def)

text \<open>
  C4, as amended. Let the module's own imports return, and let \<open>c\<close> be the first call of
  the \<^verbatim>\<open>try\<close> body that raises, with message \<open>e\<close>, every call before it having
  returned; \<open>c\<close> may belong to connecting, loading, enumerating, exporting or closing. Then
  the export function returns \<open>False\<close>, \<open>c\<close> is the last call issued, what the run writes
  to the error stream is \<^verbatim>\<open>Error: \<close> followed by \<open>e\<close> and a line break, and the entry
  point exits with status 1. That text has one line break more than \<open>e\<close>: it is a single
  line exactly when the message holds no line break, and two lines or more otherwise.
\<close>

theorem exception_caught_and_reported:
  assumes "length argv = 3"
    and "all_return h (calls w) (module_imports s)"
    and "body_of s h (argv ! 1) (argv ! 2) = pre @ c # post"
    and "all_return h (calls w @ module_imports s) pre"
    and "throws h (calls w @ module_imports s @ pre) c = Some e"
  shows "fst (export_of s h (argv ! 1) (argv ! 2) (performed (module_imports s) w)) = False
       \<and> fst (main_of s h argv w) = 1
       \<and> issued w (snd (main_of s h argv w)) = module_imports s @ pre @ [c]
       \<and> printed w (snd (main_of s h argv w)) = ''Error: '' @ e @ [newline]
       \<and> line_breaks (printed w (snd (main_of s h argv w))) = Suc (line_breaks e)"
proof -
  define w0 where "w0 = performed (module_imports s) w"
  from assms(2) have imported: "run h (module_imports s) w = (None, w0)"
    by (simp add: run_returns w0_def)
  from assms(4) have "run h pre w0 = (None, performed pre w0)"
    by (simp add: run_returns w0_def)
  moreover from assms(5) have "run h (c # post) (performed pre w0)
      = (Some e, issue c (performed pre w0))"
    by (simp add: w0_def)
  ultimately have "run h (pre @ c # post) w0 = (Some e, issue c (performed pre w0))"
    by (simp add: run_append del: run.simps)
  then have "run h (body_of s h (argv ! 1) (argv ! 2)) w0
      = (Some e, issue c (performed pre w0))"
    by (simp only: assms(3))
  then have export: "export_of s h (argv ! 1) (argv ! 2) w0
      = (False, print_stderr (''Error: '' @ e) (issue c (performed pre w0)))"
    by (simp add: export_of_run)
  with imported assms(1)
  have main: "main_of s h argv w
      = (1, print_stderr (''Error: '' @ e) (issue c (performed pre w0)))"
    by (simp add: main_of_export)
  have "issued w (print_stderr (''Error: '' @ e) (issue c (performed pre w0)))
      = module_imports s @ pre @ [c]"
    by (intro issued_append) (simp add: w0_def)
  moreover have "printed w (print_stderr (''Error: '' @ e) (issue c (performed pre w0)))
      = ''Error: '' @ e @ [newline]"
    by (intro printed_append) (simp add: w0_def)
  moreover have "line_breaks (''Error: '' @ e @ [newline]) = Suc (line_breaks e)"
    by (simp add: line_breaks_def newline_def)
  ultimately show ?thesis
    using export main by (simp add: w0_def)
qed

theorem exception_caught_and_reported_witness:
  "throws unreachable
      [Import ''uno'', Import ''com.sun.star.beans.PropertyValue'', GetComponentContext,
       ServiceManager LocalContext,
       CreateInstanceWithContext ''com.sun.star.bridge.UnoUrlResolver'' LocalContext]
      (Resolve resolve_url) = Some ''connection refused''
   \<and> fst (export_slides unreachable ''deck.pptx'' ''out'' start) = False
   \<and> fst (main_of ExportSlidesMacro unreachable
         [''exportSlidesMacro.py'', ''deck.pptx'', ''out''] start) = 1
   \<and> stderr (snd (main_of ExportSlidesMacro unreachable
         [''exportSlidesMacro.py'', ''deck.pptx'', ''out''] start))
       = ''Error: connection refused'' @ [newline]
   \<and> line_breaks (stderr (snd (main_of ExportSlidesMacro unreachable
         [''exportSlidesMacro.py'', ''deck.pptx'', ''out''] start))) = 1"
  using exception_caught_and_reported
    [of "[''exportSlidesMacro.py'', ''deck.pptx'', ''out'']" unreachable start ExportSlidesMacro
      "[Import ''uno'', Import ''com.sun.star.beans.PropertyValue'', GetComponentContext,
        ServiceManager LocalContext,
        CreateInstanceWithContext ''com.sun.star.bridge.UnoUrlResolver'' LocalContext]"
      "Resolve resolve_url"
      "drop 6 (export_slides_body unreachable ''deck.pptx'' ''out'')"
      "''connection refused''"]
  by (simp add: model_defs unreachable_def resolve_url_def)

theorem error_message_of_two_lines:
  "fst (main_of ExportSlides refusing_twice [''exportSlides.py'', ''deck.pptx'', ''out''] start) = 1
   \<and> stderr (snd (main_of ExportSlides refusing_twice
         [''exportSlides.py'', ''deck.pptx'', ''out''] start))
       = ''Error: connection refused'' @ [newline] @ ''is the office running?'' @ [newline]
   \<and> line_breaks (stderr (snd (main_of ExportSlides refusing_twice
         [''exportSlides.py'', ''deck.pptx'', ''out''] start))) = 2"
  by (simp add: model_defs refusing_twice_def resolve_url_def)

text \<open>
  C5. When the load request, made after the calls that precede it in the run, raises, or
  hands back \<^verbatim>\<open>None\<close>, the run exits with status 1, the export function returns
  \<open>False\<close>, no slide is fetched or exported, and the files are those from before the run.
\<close>

theorem load_failure_writes_nothing:
  assumes "length argv = 3"
    and "throws h (calls w @ module_imports s @ before_load s h (argv ! 1) (argv ! 2))
           (load_request s h (argv ! 1)) \<noteq> None
         \<or> \<not> load_returns_document s h (argv ! 1)"
    and "main_of s h argv w = (status, w')"
  shows "status = 1
       \<and> fst (export_of s h (argv ! 1) (argv ! 2) (performed (module_imports s) w)) = False
       \<and> files w' = files w
       \<and> (\<forall>c\<in>set (issued w w'). \<not> is_export c \<and> (\<forall>j. c \<noteq> GetByIndex j))"
proof -
  define w0 where "w0 = performed (module_imports s) w"
  obtain ok w1 where export: "export_of s h (argv ! 1) (argv ! 2) w0 = (ok, w1)"
    by (cases "export_of s h (argv ! 1) (argv ! 2) w0")
  from assms(2) have "throws h (calls w0 @ before_load s h (argv ! 1) (argv ! 2))
           (load_request s h (argv ! 1)) \<noteq> None
         \<or> \<not> load_returns_document s h (argv ! 1)"
    by (simp add: w0_def)
  from load_failure_export [OF this export]
  have ok: "ok = False" and files1: "files w1 = files w0"
    and quiet1: "\<forall>c\<in>set (issued w0 w1). \<not> is_export c \<and> (\<forall>j. c \<noteq> GetByIndex j)"
    and calls1: "calls w1 = calls w0 @ issued w0 w1"
    by simp_all
  have files0: "files w0 = files w"
    using module_imports_quiet [of s] by (simp add: w0_def files_performed fold_written_no_export)
  show ?thesis
  proof (cases "all_return h (calls w) (module_imports s)")
    case True
    then have "run h (module_imports s) w = (None, w0)"
      by (simp add: run_returns w0_def)
    with assms(1,3) export ok have "status = 1" and w': "w' = w1"
      by (simp_all add: main_of_export)
    from calls1 have "issued w w1 = module_imports s @ issued w0 w1"
      by (intro issued_append) (simp add: w0_def)
    with quiet1 module_imports_quiet [of s]
    have "\<forall>c\<in>set (issued w w1). \<not> is_export c \<and> (\<forall>j. c \<noteq> GetByIndex j)"
      by auto
    with \<open>status = 1\<close> w' export ok files1 files0 show ?thesis
      by (simp add: w0_def)
  next
    case False
    obtain r w2 where run: "run h (module_imports s @ []) w = (r, w2)"
      by (cases "run h (module_imports s @ []) w")
    have "\<forall>c\<in>set (butlast (module_imports s)). \<not> is_export c"
      using module_imports_quiet [of s] by (auto dest: in_set_butlastD)
    from run_stops_within [OF False this run]
    have r: "r \<noteq> None" and sub: "set (issued w w2) \<subseteq> set (module_imports s)"
      and files2: "files w2 = files w"
      by simp_all
    from r obtain e where "r = Some e" by auto
    with run assms(3) have "status = 1" and "w' = w2\<lparr>stderr := stderr w2 @ traceback e\<rparr>"
      by (simp_all add: main_of_export)
    with sub files2 module_imports_quiet [of s] export ok show ?thesis
      by (auto simp: w0_def)
  qed
qed

theorem load_failure_writes_nothing_witness:
  "throws missing_file
      (calls start @ module_imports ExportSlides
        @ before_load ExportSlides missing_file ''missing.pptx'' ''out'')
      (load_request ExportSlides missing_file ''missing.pptx'') = Some ''Unsupported URL''
   \<and> fst (main_of ExportSlides missing_file [''exportSlides.py'', ''missing.pptx'', ''out''] start) = 1
   \<and> files (snd (main_of ExportSlides missing_file
         [''exportSlides.py'', ''missing.pptx'', ''out''] start)) = Map.empty"
  using load_failure_writes_nothing
    [of "[''exportSlides.py'', ''missing.pptx'', ''out'']" missing_file start ExportSlides
      "fst (main_of ExportSlides missing_file [''exportSlides.py'', ''missing.pptx'', ''out''] start)"
      "snd (main_of ExportSlides missing_file [''exportSlides.py'', ''missing.pptx'', ''out''] start)"]
  by (simp add: model_defs missing_file_def)

text \<open>
  C6. Let every call before the loop and in the first \<open>k\<close> passes return, and let pass
  \<open>k\<close> (the export of slide \<open>k + 1\<close>) not run to its end, with \<open>k\<close> below the slide count.
  Then the function returns \<open>False\<close>; the files are those from before the run with the
  first \<open>k\<close> slides written over them in order, so each of their \<open>k\<close> files is there; no
  close call is issued; and all that is printed is the one \<^verbatim>\<open>Error: \<close> text with the
  message of the exception raised in pass \<open>k\<close>.
\<close>

theorem failure_in_loop_keeps_earlier_files:
  assumes "s = ExportSlidesMacro \<longrightarrow> \<not> getSlideShowController h"
    and "all_return h (calls w)
           (before_loop s h input_file output_dir @ concat (map (pass s h output_dir) [0..<k]))"
    and "k < getCount h"
    and "\<not> all_return h
           (calls w @ before_loop s h input_file output_dir
              @ concat (map (pass s h output_dir) [0..<k]))
           (pass s h output_dir k)"
    and "export_of s h input_file output_dir w = (ok, w')"
  shows "ok = False
       \<and> files w' = exported h output_dir k (files w)
       \<and> (\<forall>j<k. output_url h output_dir j \<in> dom (files w'))
       \<and> (\<forall>c\<in>set (issued w w'). \<not> is_close c)
       \<and> (\<exists>pre c post e. pass s h output_dir k = pre @ c # post
             \<and> throws h (calls w @ before_loop s h input_file output_dir
                   @ concat (map (pass s h output_dir) [0..<k]) @ pre) c = Some e
             \<and> stderr w' = stderr w @ ''Error: '' @ e @ [newline])"
proof -
  define finished where
    "finished = before_loop s h input_file output_dir @ concat (map (pass s h output_dir) [0..<k])"
  define rest where
    "rest = concat (map (pass s h output_dir) [Suc k..<getCount h])
            @ [Close (loaded (load_returns_document s h input_file)) True]"
  have body: "body_of s h input_file output_dir = finished @ pass s h output_dir k @ rest"
    by (simp add: body_of_loop [OF assms(1)] upt_split [OF assms(3)] finished_def rest_def)
  have returned: "all_return h (calls w) finished"
    using assms(2) by (simp add: finished_def)
  have no_close: "\<forall>c\<in>set finished. \<not> is_close c"
    using before_loop_quiet [of s h input_file output_dir] pass_quiet(1) [of s h output_dir]
    by (auto simp: finished_def)
  define w1 where "w1 = performed finished w"
  have files1: "files w1 = exported h output_dir k (files w)"
    using before_loop_quiet [of s h input_file output_dir]
    by (simp add: w1_def finished_def files_performed fold_written_no_export fold_written_passes)
  obtain r w2 where run2: "run h (pass s h output_dir k @ rest) w1 = (r, w2)"
    by (cases "run h (pass s h output_dir k @ rest) w1")
  from assms(4) have stops: "\<not> all_return h (calls w1) (pass s h output_dir k)"
    by (simp add: w1_def finished_def)
  from run_stops_within [OF stops pass_quiet(2) run2]
  have ex: "\<exists>pre c post. pass s h output_dir k = pre @ c # post
        \<and> r = throws h (calls w1 @ pre) c"
    and raised: "r \<noteq> None"
    and sub: "set (issued w1 w2) \<subseteq> set (pass s h output_dir k)"
    and files2: "files w2 = files w1" and stderr2: "stderr w2 = stderr w1"
    and calls2: "calls w2 = calls w1 @ issued w1 w2"
    by blast+
  from ex obtain pre c post where c: "pass s h output_dir k = pre @ c # post"
      "r = throws h (calls w1 @ pre) c"
    by blast
  from c raised obtain e where e: "throws h (calls w1 @ pre) c = Some e" "r = Some e" by auto
  have run: "run h (body_of s h input_file output_dir) w = (Some e, w2)"
    using run2 e(2) returned by (simp add: body run_append run_returns w1_def)
  with assms(5) have ok: "ok = False" and w': "w' = print_stderr (''Error: '' @ e) w2"
    by (simp_all add: export_of_run)
  from calls2 have "calls w2 = calls w @ finished @ issued w1 w2"
    by (simp add: w1_def)
  then have "issued w w2 = finished @ issued w1 w2" by (rule issued_append)
  with sub no_close pass_quiet(1) [of s h output_dir k]
  have closes: "\<forall>c\<in>set (issued w w2). \<not> is_close c" by auto
  from c(1) e(1) have "\<exists>pre c post e. pass s h output_dir k = pre @ c # post
      \<and> throws h (calls w @ finished @ pre) c = Some e
      \<and> stderr w' = stderr w @ ''Error: '' @ e @ [newline]"
    unfolding w' by (auto simp: stderr2 w1_def)
  with ok w' files1 files2 closes show ?thesis
    by (simp add: finished_def exported_dom)
qed

theorem failure_in_loop_keeps_earlier_files_witness:
  "fst (export_slides_to_png failing_export ''deck.pptx'' ''out'' start) = False
   \<and> files (snd (export_slides_to_png failing_export ''deck.pptx'' ''out'' start))
        ''file:///work/out/slide_001.png'' = Some (0, ''png'')
   \<and> files (snd (export_slides_to_png failing_export ''deck.pptx'' ''out'' start))
        ''file:///work/out/slide_002.png'' = None
   \<and> stderr (snd (export_slides_to_png failing_export ''deck.pptx'' ''out'' start))
        = ''Error: export failed'' @ [newline]
   \<and> Close TheDocument True
        \<notin> set (calls (snd (export_slides_to_png failing_export ''deck.pptx'' ''out'' start)))"
  using failure_in_loop_keeps_earlier_files
    [of ExportSlides failing_export start "''deck.pptx''" "''out''" 1
      "fst (export_slides_to_png failing_export ''deck.pptx'' ''out'' start)"
      "snd (export_slides_to_png failing_export ''deck.pptx'' ''out'' start)"]
  by (simp add: model_defs failing_export_def)

text \<open>
  C7. On a host with three slides whose slide-show controller is truthy,
  \<^verbatim>\<open>export_slides\<close> returns \<open>True\<close> and its last call is \<^verbatim>\<open>close(True)\<close> on the
  document, but no export comes before that close: the document is closed with none of the
  three slides exported.
\<close>

theorem macro_closes_with_no_slide_exported:
  "getSlideShowController presenting
   \<and> getCount presenting = 3
   \<and> fst (export_slides presenting ''deck.pptx'' ''out'' start) = True
   \<and> last (calls (snd (export_slides presenting ''deck.pptx'' ''out'' start)))
       = Close TheDocument True
   \<and> length (filter is_export
        (butlast (calls (snd (export_slides presenting ''deck.pptx'' ''out'' start))))) = 0"
  by (simp add: model_defs presenting_def)

text \<open>
  C8. On a host where \<^verbatim>\<open>com.sun.star\<close> cannot be imported before \<^verbatim>\<open>uno\<close> is,
  \<^verbatim>\<open>exportSlides.py\<close> started with one argument stops at the import at the top of the
  module: it exits with status 1 having made that one call, and what it has written to the
  error stream is a traceback, not the usage line. \<^verbatim>\<open>exportSlidesMacro.py\<close>, which
  imports inside its \<^verbatim>\<open>try\<close> block, prints its usage line on the same host.
\<close>

theorem import_fails_before_usage:
  "length [''exportSlides.py'', ''deck.pptx''] \<noteq> 3
   \<and> fst (main_of ExportSlides plain_python [''exportSlides.py'', ''deck.pptx''] start) = 1
   \<and> calls (snd (main_of ExportSlides plain_python [''exportSlides.py'', ''deck.pptx''] start))
       = [Import ''com.sun.star.beans.PropertyValue'']
   \<and> stderr (snd (main_of ExportSlides plain_python [''exportSlides.py'', ''deck.pptx''] start))
       = traceback (''No module named '' @ quote ''com'')
   \<and> stderr (snd (main_of ExportSlides plain_python [''exportSlides.py'', ''deck.pptx''] start))
       \<noteq> usage_of ExportSlides @ [newline]
   \<and> stderr (snd (main_of ExportSlidesMacro plain_python
         [''exportSlidesMacro.py'', ''deck.pptx''] start))
       = usage_of ExportSlidesMacro @ [newline]"
  by (simp add: model_defs plain_python_def needs_uno_first_def usage_of_def quote_def)

text \<open>
  C9, as amended. No run of either script issues a store call. A load request, when one is
  issued, is for the converted input path, target \<^verbatim>\<open>_blank\<close>, flags 0, and carries
  \<^verbatim>\<open>Hidden = True\<close> alone (\<^verbatim>\<open>exportSlides.py\<close>) or no property at all
  (\<^verbatim>\<open>exportSlidesMacro.py\<close>): it never asks for read-only mode.
\<close>

theorem no_store_and_no_read_only_request:
  assumes "export_of s h input_file output_dir w = (ok, w')"
  shows "(\<forall>c\<in>set (issued w w'). \<not> is_store c)
       \<and> (\<forall>url target flags props.
             LoadComponentFromURL url target flags props \<in> set (issued w w') \<longrightarrow>
               url = systemPathToFileUrl h (abspath h input_file)
               \<and> target = ''_blank'' \<and> flags = 0
               \<and> props = (case s of ExportSlides \<Rightarrow> [(''Hidden'', True)]
                                  | ExportSlidesMacro \<Rightarrow> [])
               \<and> (''ReadOnly'', True) \<notin> set props)"
proof -
  from export_of_issued [OF assms] obtain rest
    where "body_of s h input_file output_dir = issued w w' @ rest"
    by blast
  then have sub: "set (issued w w') \<subseteq> set (body_of s h input_file output_dir)"
    by auto
  have "\<forall>c\<in>set (issued w w'). \<not> is_store c"
    using sub body_of_calls by blast
  moreover have "url = systemPathToFileUrl h (abspath h input_file)
               \<and> target = ''_blank'' \<and> flags = 0
               \<and> props = (case s of ExportSlides \<Rightarrow> [(''Hidden'', True)]
                                  | ExportSlidesMacro \<Rightarrow> [])
               \<and> (''ReadOnly'', True) \<notin> set props"
    if "LoadComponentFromURL url target flags props \<in> set (issued w w')"
    for url target flags props
  proof -
    from that sub
    have "LoadComponentFromURL url target flags props \<in> set (body_of s h input_file output_dir)"
      by blast
    from body_of_calls [OF this]
    have "LoadComponentFromURL url target flags props = load_request s h input_file"
      by simp
    then show ?thesis
      by (cases s) (simp_all add: load_request_def load_props_def hidden_props_def)
  qed
  ultimately show ?thesis by blast
qed

theorem no_store_and_no_read_only_request_witness:
  "filter is_store (calls (snd (export_slides_to_png (office never False 2) ''deck.pptx'' ''out'' start))) = []
   \<and> filter is_load (calls (snd (export_slides_to_png (office never False 2) ''deck.pptx'' ''out'' start)))
       = [LoadComponentFromURL ''file:///work/deck.pptx'' ''_blank'' 0 [(''Hidden'', True)]]"
  using no_store_and_no_read_only_request
    [of ExportSlides "office never False 2" "''deck.pptx''" "''out''" start
      "fst (export_slides_to_png (office never False 2) ''deck.pptx'' ''out'' start)"
      "snd (export_slides_to_png (office never False 2) ''deck.pptx'' ''out'' start)"]
  by (simp add: model_defs)

theorem opened_without_read_only_request:
  "\<not> opened_read_only
       (calls (snd (export_slides_to_png (office never False 2) ''deck.pptx'' ''out'' start)))"
  by (simp add: model_defs opened_read_only_def)

text \<open>
  C10, as amended. When every call of \<^verbatim>\<open>export_slides\<close> up to and including
  \<^verbatim>\<open>getSlideShowController\<close> returns and the controller is truthy, no export is issued
  and the files stay as they were; the close call is issued next and is the last call. If
  it returns, the function returns \<open>True\<close> and prints nothing; if it raises, the function
  prints \<^verbatim>\<open>Error: \<close> with the message and returns \<open>False\<close>, as on a host that vetoes
  the close.
\<close>

theorem slide_show_controller_skips_export:
  assumes "getSlideShowController h"
    and "all_return h (calls w) (open_document h input_file output_dir)"
    and "export_slides h input_file output_dir w = (ok, w')"
  shows "files w' = files w
       \<and> (\<forall>c\<in>set (issued w w'). \<not> is_export c)
       \<and> issued w w' = open_document h input_file output_dir @ [Close TheDocument True]
       \<and> ok = (raises h (calls w @ open_document h input_file output_dir)
                  (Close TheDocument True) = None)
       \<and> stderr w' = stderr w @
           (case raises h (calls w @ open_document h input_file output_dir)
                   (Close TheDocument True) of
              None \<Rightarrow> [] | Some e \<Rightarrow> ''Error: '' @ e @ [newline])"
proof -
  define doc where "doc =
    loaded (loadComponentFromURL h (systemPathToFileUrl h (abspath h input_file)) ''_blank'' 0 [])"
  have shape: "open_document h input_file output_dir
      = (convert_paths h input_file output_dir
          @ [LoadComponentFromURL (systemPathToFileUrl h (abspath h input_file)) ''_blank'' 0 []])
        @ GetCurrentController doc # [GetSlideShowController]"
    by (simp add: open_document_def doc_def Let_def)
  from assms(2) have "\<exists>tr. throws h tr (GetCurrentController doc) = None"
    unfolding shape all_return_append by auto
  then have doc: "doc = TheDocument"
    by (auto simp: doc_def loaded_def split: if_splits)
  from assms(1) doc have body: "export_slides_body h input_file output_dir
      = open_document h input_file output_dir @ [Close TheDocument True]"
    by (simp add: export_slides_body_def doc_def Let_def)
  have quiet: "\<forall>c\<in>set (open_document h input_file output_dir). \<not> is_export c"
    by (auto simp: open_document_def convert_paths_def connect_def Let_def)
  then have files: "fold written (open_document h input_file output_dir) fs = fs" for fs
    by (rule fold_written_no_export)
  from assms(2) have opened: "run h (open_document h input_file output_dir) w
      = (None, performed (open_document h input_file output_dir) w)"
    by (rule run_returns)
  show ?thesis
  proof (cases "raises h (calls w @ open_document h input_file output_dir) (Close TheDocument True)")
    case None
    with opened body have "run h (export_slides_body h input_file output_dir) w
        = (None, performed (open_document h input_file output_dir @ [Close TheDocument True]) w)"
      by (simp add: run_append)
    with assms(3) have "ok = True"
      and "w' = performed (open_document h input_file output_dir @ [Close TheDocument True]) w"
      by (simp_all add: export_slides_def)
    with None quiet files show ?thesis
      by (auto simp: files_performed)
  next
    case (Some e)
    with opened body
    have "run h (export_slides_body h input_file output_dir) w
        = (Some e, issue (Close TheDocument True) (performed (open_document h input_file output_dir) w))"
      by (simp add: run_append)
    with assms(3) have "ok = False"
      and "w' = print_stderr (''Error: '' @ e)
                 (issue (Close TheDocument True) (performed (open_document h input_file output_dir) w))"
      by (simp_all add: export_slides_def)
    with Some quiet files show ?thesis
      by (auto simp: files_performed)
  qed
qed

theorem slide_show_controller_skips_export_witness:
  "getSlideShowController presenting
   \<and> getCount presenting = 3
   \<and> fst (export_slides presenting ''deck.pptx'' ''out'' start) = True
   \<and> files (snd (export_slides presenting ''deck.pptx'' ''out'' start)) = Map.empty
   \<and> last (calls (snd (export_slides presenting ''deck.pptx'' ''out'' start)))
       = Close TheDocument True
   \<and> stderr (snd (export_slides presenting ''deck.pptx'' ''out'' start)) = []
   \<and> getSlideShowController vetoing
   \<and> fst (export_slides vetoing ''deck.pptx'' ''out'' start) = False
   \<and> files (snd (export_slides vetoing ''deck.pptx'' ''out'' start)) = Map.empty
   \<and> stderr (snd (export_slides vetoing ''deck.pptx'' ''out'' start))
       = ''Error: close vetoed'' @ [newline]"
  using slide_show_controller_skips_export
    [of presenting start "''deck.pptx''" "''out''"
      "fst (export_slides presenting ''deck.pptx'' ''out'' start)"
      "snd (export_slides presenting ''deck.pptx'' ''out'' start)"]
    slide_show_controller_skips_export
    [of vetoing start "''deck.pptx''" "''out''"
      "fst (export_slides vetoing ''deck.pptx'' ''out'' start)"
      "snd (export_slides vetoing ''deck.pptx'' ''out'' start)"]
  by (simp add: model_defs presenting_def vetoing_def)

theorem close_veto_after_skipped_export:
  "getSlideShowController vetoing
   \<and> GetSlideShowController \<in> set (calls (snd (export_slides vetoing ''deck.pptx'' ''out'' start)))
   \<and> fst (export_slides vetoing ''deck.pptx'' ''out'' start) = False
   \<and> stderr (snd (export_slides vetoing ''deck.pptx'' ''out'' start))
       = ''Error: close vetoed'' @ [newline]"
  by (simp add: model_defs vetoing_def)

end
